theory Spec2Isabelle
  imports Main "HOL-Library.AList" "HOL-Library.Char_ord" "HOL-Library.List_Lexorder"
begin

section \<open>Data model\<close>

text \<open>
  Python types as far as the parsers look at them: the wildcard \<open>typing.Any\<close> and
  named types. Generic collection types are only inspected through helpers that are not
  part of the modelled files, so they stay named types here.
\<close>

datatype pytype = Any | Cls string

text \<open>
  A candidate parser as the combining parsers see it: its identity (what \<open>str\<close> prints and
  what a dict keyed by the object distinguishes), the answers of \<open>supports_singlefile()\<close> and
  \<open>supports_multifile()\<close>, and the attributes \<open>supported_types\<close> and \<open>supported_exts\<close>.
\<close>

record parser =
  parser_name :: string
  supports_singlefile :: bool
  supports_multifile :: bool
  supported_types :: "pytype set"
  supported_exts :: "string set"

text \<open>The raise statements of the modelled files, one tag per \<open>ValueError\<close> message.\<close>

datatype value_error =
    CascadeSinglefileSupport
  | CascadeMultifileSupport
  | CascadeAnyType "pytype set"
  | CascadeMissingTypes "pytype set"
  | CascadeMissingExts "string set"
  | ChainAnyTypeBase
  | ChainSeveralTypes
  | ChainTypesNotConsistent
  | LazyAndBackground
  | BackgroundNotSupported

datatype cascade_phase = ParsingPlanCreation | Execution

text \<open>
  Python exceptions. \<open>Raised\<close> is an exception coming out of a collaborator (a candidate
  parser, a plan, a converter, a loading method). \<open>CascadeError\<close> keeps the dictionary its
  message is rendered from, in iteration order.
\<close>

datatype py_exception =
    ValueError value_error
  | TypeError string
  | KeyError string
  | Exception string
  | CheckVarError string
  | FolderAndFilesStructureError nat nat
  | Raised string
  | CascadeError cascade_phase "(parser \<times> py_exception) list"

section \<open>CascadingParser\<close>

text \<open>
  \<open>CascadingParser.__init__\<close> does not call the base constructor: it sets \<open>configured\<close> and
  \<open>_parsers_list\<close> only. The attributes \<open>supported_exts\<close> and \<open>supported_types\<close> do not exist
  until \<open>add_parser_to_cascade\<close> assigns them, which it does before reading them as long as
  \<open>configured\<close> is false; the record gives them the empty set until then.
\<close>

record cascading_parser =
  configured :: bool
  parsers_list :: "parser list"
  cascade_supported_exts :: "string set"
  cascade_supported_types :: "pytype set"

definition new_cascading_parser :: cascading_parser where
  "new_cascading_parser =
     \<lparr>configured = False, parsers_list = [], cascade_supported_exts = {},
      cascade_supported_types = {}\<rparr>"

text \<open>Lines 164-168: the block guarded by \<open>if not self.configured\<close>.\<close>

definition configure_cascade :: "cascading_parser \<Rightarrow> parser \<Rightarrow> cascading_parser" where
  "configure_cascade self p =
     (if \<not> configured self
      then self\<lparr>cascade_supported_exts := supported_exts p,
                cascade_supported_types := supported_types p\<rparr>
      else self)"

text \<open>
  \<open>add_parser_to_cascade\<close>, lines 154-205. The methods \<open>self.supports_singlefile()\<close> and
  \<open>self.supports_multifile()\<close> are inherited from a class outside the modelled files; they
  are the parameters \<open>self_ss\<close> and \<open>self_sm\<close>, functions of the cascade's attributes at the
  moment of the call. The result pairs what the call raises (or \<open>Inr ()\<close>) with the cascade
  as the call leaves it: an assignment made before a raise stays.
\<close>

definition add_parser_to_cascade ::
  "(cascading_parser \<Rightarrow> bool) \<Rightarrow> (cascading_parser \<Rightarrow> bool) \<Rightarrow>
   cascading_parser \<Rightarrow> parser \<Rightarrow> (py_exception + unit) \<times> cascading_parser" where
  "add_parser_to_cascade self_ss self_sm self0 p =
     (let self = configure_cascade self0 p in
      if self_ss self \<and> \<not> supports_singlefile p
        then (Inl (ValueError CascadeSinglefileSupport), self)
      else if self_sm self \<and> \<not> supports_multifile p
        then (Inl (ValueError CascadeMultifileSupport), self)
      else if Any \<notin> supported_types p \<and> Any \<in> cascade_supported_types self
        then (Inl (ValueError (CascadeAnyType (supported_types p))), self)
      else if Any \<notin> supported_types p
              \<and> cascade_supported_types self - supported_types p \<noteq> {}
        then (Inl (ValueError
                (CascadeMissingTypes (cascade_supported_types self - supported_types p))), self)
      else if cascade_supported_exts self - supported_exts p \<noteq> {}
        then (Inl (ValueError
                (CascadeMissingExts (cascade_supported_exts self - supported_exts p))), self)
      else (Inr (), self\<lparr>parsers_list := parsers_list self @ [p]\<rparr>))"

text \<open>The loop of \<open>__init__\<close>, lines 130-131: the first exception leaves the constructor.\<close>

fun add_parsers ::
  "(cascading_parser \<Rightarrow> bool) \<Rightarrow> (cascading_parser \<Rightarrow> bool) \<Rightarrow>
   cascading_parser \<Rightarrow> parser list \<Rightarrow> py_exception + cascading_parser" where
  "add_parsers self_ss self_sm self [] = Inr self"
| "add_parsers self_ss self_sm self (p # ps) =
     (case add_parser_to_cascade self_ss self_sm self p of
        (Inl e, _) \<Rightarrow> Inl e
      | (Inr _, self') \<Rightarrow> add_parsers self_ss self_sm self' ps)"

definition CascadingParser_init ::
  "(cascading_parser \<Rightarrow> bool) \<Rightarrow> (cascading_parser \<Rightarrow> bool) \<Rightarrow>
   parser list option \<Rightarrow> py_exception + cascading_parser" where
  "CascadingParser_init self_ss self_sm parsers =
     (case parsers of
        None \<Rightarrow> Inr new_cascading_parser
      | Some ps \<Rightarrow> add_parsers self_ss self_sm new_cascading_parser ps)"

text \<open>Example candidates used to evaluate the definitions.\<close>

definition parser_A :: parser where
  "parser_A = \<lparr>parser_name = ''A'', supports_singlefile = True, supports_multifile = True,
               supported_types = {Any}, supported_exts = {''.txt''}\<rparr>"

definition parser_B :: parser where
  "parser_B = \<lparr>parser_name = ''B'', supports_singlefile = True, supports_multifile = True,
               supported_types = {Cls ''int''}, supported_exts = {''.csv''}\<rparr>"


text \<open>
  Example inherited methods used to evaluate the definitions. The cascade stores no flag
  of its own (the assignments of lines 165 and 168 are commented out), so the methods
  answer from what it does store, here from the extensions: multifile support is the
  marker \<open>MULTIFILE_EXT\<close> among them, single-file support any other extension. The
  candidates \<open>parser_S\<close>, for single files only, and \<open>parser_M\<close>, for multifile objects
  only, answer for themselves as these methods do on their own extensions.
\<close>

definition MULTIFILE_EXT :: string where
  "MULTIFILE_EXT = ''<multifile>''"

definition exts_support_singlefile :: "cascading_parser \<Rightarrow> bool" where
  "exts_support_singlefile self = (cascade_supported_exts self - {MULTIFILE_EXT} \<noteq> {})"

definition exts_support_multifile :: "cascading_parser \<Rightarrow> bool" where
  "exts_support_multifile self = (MULTIFILE_EXT \<in> cascade_supported_exts self)"

definition parser_S :: parser where
  "parser_S = \<lparr>parser_name = ''S'', supports_singlefile = True, supports_multifile = False,
               supported_types = {Cls ''int''}, supported_exts = {''.txt''}\<rparr>"

definition parser_M :: parser where
  "parser_M = \<lparr>parser_name = ''M'', supports_singlefile = False, supports_multifile = True,
               supported_types = {Cls ''int''}, supported_exts = {MULTIFILE_EXT}\<rparr>"

section \<open>ParsingChain\<close>

text \<open>
  A converter as the chain sees it: its identity and its declared source and destination
  types. Its methods \<open>is_able_to_convert\<close> and \<open>convert\<close> live outside the modelled files and
  are parameters of the functions below.
\<close>

record converter =
  converter_name :: string
  from_type :: pytype
  to_type :: pytype

record parsing_chain =
  base_parser :: parser
  chain_converter :: converter
  chain_supported_types :: "pytype set"
  chain_supported_exts :: "string set"
  strict :: bool

text \<open>
  \<open>ParsingChain.__init__\<close>, lines 363-401. The \<open>check_var\<close> calls test the Python types of
  the arguments, which the types of this function already fix. \<open>next(iter(s))\<close> on a set
  of one element is that element.
\<close>

definition ParsingChain_init ::
  "(converter \<Rightarrow> bool \<Rightarrow> pytype \<Rightarrow> pytype option \<Rightarrow> bool) \<Rightarrow>
   parser \<Rightarrow> converter \<Rightarrow> bool \<Rightarrow> pytype option \<Rightarrow> py_exception + parsing_chain" where
  "ParsingChain_init is_able_to_convert bp conv strict_mode base_parser_chosen_dest_type =
     (if Any \<in> supported_types bp then Inl (ValueError ChainAnyTypeBase)
      else
        case (case base_parser_chosen_dest_type of
                None \<Rightarrow> if card (supported_types bp) \<noteq> 1
                        then Inl (ValueError ChainSeveralTypes)
                        else Inr (the_elem (supported_types bp))
              | Some t \<Rightarrow> Inr t) of
          Inl e \<Rightarrow> Inl e
        | Inr parser_out_type \<Rightarrow>
            if \<not> is_able_to_convert conv strict_mode parser_out_type None
            then Inl (ValueError ChainTypesNotConsistent)
            else Inr \<lparr>base_parser = bp, chain_converter = conv,
                      chain_supported_types = {to_type conv},
                      chain_supported_exts = supported_exts bp,
                      strict = strict_mode\<rparr>)"

text \<open>
  \<open>ParsingChain._parse_singlefile\<close>, lines 429-439. The base parser's \<open>_parse_singlefile\<close>
  and the converter's \<open>convert\<close> are collaborators: each takes the outside world \<open>'w\<close>
  (files, loggers, whatever they touch) and returns an exception or a value with the
  world they leave. A Python exception leaves the function at the call that raised it.
\<close>

definition ParsingChain_parse_singlefile ::
  "(parser \<Rightarrow> pytype \<Rightarrow> string \<Rightarrow> string \<Rightarrow> 'w \<Rightarrow> (py_exception + 'a) \<times> 'w) \<Rightarrow>
   (converter \<Rightarrow> pytype \<Rightarrow> 'a \<Rightarrow> 'w \<Rightarrow> (py_exception + 'b) \<times> 'w) \<Rightarrow>
   parsing_chain \<Rightarrow> pytype \<Rightarrow> string \<Rightarrow> string \<Rightarrow> 'w \<Rightarrow> (py_exception + 'b) \<times> 'w" where
  "ParsingChain_parse_singlefile parse_singlefile convert self desired_type file_path encoding w =
     (case parse_singlefile (base_parser self) (from_type (chain_converter self))
             file_path encoding w of
        (Inl e, w') \<Rightarrow> (Inl e, w')
      | (Inr first, w') \<Rightarrow> convert (chain_converter self) desired_type first w')"

text \<open>Example collaborators used to evaluate the definitions.\<close>

definition parser_D :: parser where
  "parser_D = \<lparr>parser_name = ''D'', supports_singlefile = True, supports_multifile = False,
               supported_types = {Cls ''int'', Cls ''str''}, supported_exts = {''.txt''}\<rparr>"

definition conv_str_float :: converter where
  "conv_str_float = \<lparr>converter_name = ''str2float'', from_type = Cls ''str'',
                     to_type = Cls ''float''\<rparr>"

definition accepts_declared_source :: "converter \<Rightarrow> bool \<Rightarrow> pytype \<Rightarrow> pytype option \<Rightarrow> bool" where
  "accepts_declared_source conv strict_mode src dst = (src = from_type conv)"

text \<open>
  Collaborators that write what they are asked into the world, a list of call records:
  the parser the type it is asked for, the converter the type it is asked to reach.
\<close>

datatype call_record = ParseCall string pytype | ConvertCall string pytype

definition logging_parse ::
  "parser \<Rightarrow> pytype \<Rightarrow> string \<Rightarrow> string \<Rightarrow> call_record list
     \<Rightarrow> (py_exception + string) \<times> call_record list" where
  "logging_parse p t file_path encoding w =
     (if file_path = ''missing'' then (Inl (Raised ''no such file''), w @ [ParseCall (parser_name p) t])
      else (Inr file_path, w @ [ParseCall (parser_name p) t]))"

definition logging_convert ::
  "converter \<Rightarrow> pytype \<Rightarrow> string \<Rightarrow> call_record list
     \<Rightarrow> (py_exception + string) \<times> call_record list" where
  "logging_convert c t v w =
     (if v = ''bad'' then (Inl (Raised ''cannot convert''), w @ [ConvertCall (converter_name c) t])
      else (Inr (v @ ''!''), w @ [ConvertCall (converter_name c) t]))"

definition chain_D :: parsing_chain where
  "chain_D = \<lparr>base_parser = parser_D, chain_converter = conv_str_float,
              chain_supported_types = {Cls ''float''}, chain_supported_exts = {''.txt''},
              strict = True\<rparr>"

section \<open>Dictionaries\<close>


section \<open>LazyDictionary\<close>

text \<open>
  \<open>LazyDictionary\<close>, lines 241-300. The loading method is a collaborator acting on the
  outside world \<open>'w\<close>.
\<close>

record ('a, 'w) lazy_dictionary =
  inner_dict :: "(string \<times> 'a) list"
  lazyloadable_keys :: "string list"
  loading_method :: "string \<Rightarrow> 'w \<Rightarrow> (py_exception + 'a) \<times> 'w"

definition LazyDictionary_init ::
  "string list \<Rightarrow> (string \<Rightarrow> 'w \<Rightarrow> (py_exception + 'a) \<times> 'w) \<Rightarrow> ('a, 'w) lazy_dictionary" where
  "LazyDictionary_init keys lm =
     \<lparr>inner_dict = [], lazyloadable_keys = keys, loading_method = lm\<rparr>"

definition LazyDictionary_contains :: "('a, 'w) lazy_dictionary \<Rightarrow> string \<Rightarrow> bool" where
  "LazyDictionary_contains self item = (item \<in> set (lazyloadable_keys self))"

definition LazyDictionary_keys :: "('a, 'w) lazy_dictionary \<Rightarrow> string set" where
  "LazyDictionary_keys self = set (lazyloadable_keys self)"

definition LazyDictionary_len :: "('a, 'w) lazy_dictionary \<Rightarrow> nat" where
  "LazyDictionary_len self = length (lazyloadable_keys self)"

definition LazyDictionary_iter :: "('a, 'w) lazy_dictionary \<Rightarrow> string list" where
  "LazyDictionary_iter self = lazyloadable_keys self"

text \<open>\<open>__getitem__\<close>, lines 282-294: the value or the exception, the dictionary and the world after.\<close>

definition LazyDictionary_getitem ::
  "('a, 'w) lazy_dictionary \<Rightarrow> string \<Rightarrow> 'w
     \<Rightarrow> (py_exception + 'a) \<times> ('a, 'w) lazy_dictionary \<times> 'w" where
  "LazyDictionary_getitem self name w =
     (case map_of (inner_dict self) name of
        Some v \<Rightarrow> (Inr v, self, w)
      | None \<Rightarrow>
          if name \<in> set (lazyloadable_keys self)
          then (case loading_method self name w of
                  (Inl e, w') \<Rightarrow> (Inl e, self, w')
                | (Inr val, w') \<Rightarrow>
                    (Inr val, self\<lparr>inner_dict := AList.update name val (inner_dict self)\<rparr>, w'))
          else (Inl (KeyError name), self, w))"

text \<open>\<open>get\<close>, lines 276-280: only a \<open>KeyError\<close> becomes the default.\<close>

definition LazyDictionary_get ::
  "('a, 'w) lazy_dictionary \<Rightarrow> string \<Rightarrow> 'a option \<Rightarrow> 'w
     \<Rightarrow> (py_exception + 'a option) \<times> ('a, 'w) lazy_dictionary \<times> 'w" where
  "LazyDictionary_get self key dflt w =
     (case LazyDictionary_getitem self key w of
        (Inr v, self', w') \<Rightarrow> (Inr (Some v), self', w')
      | (Inl (KeyError k), self', w') \<Rightarrow> (Inr dflt, self', w')
      | (Inl e, self', w') \<Rightarrow> (Inl e, self', w'))"

text \<open>
  A caller that looks keys up one after the other, catching what a lookup raises, and
  a loading method wrapped so that it writes each key it is called for into a log
  kept beside the world.
\<close>

fun lookups ::
  "('a, 'w) lazy_dictionary \<Rightarrow> string list \<Rightarrow> 'w
     \<Rightarrow> (py_exception + 'a) list \<times> ('a, 'w) lazy_dictionary \<times> 'w" where
  "lookups self [] w = ([], self, w)"
| "lookups self (k # ks) w =
     (case LazyDictionary_getitem self k w of
        (r, self', w') \<Rightarrow>
          (case lookups self' ks w' of (rs, self'', w'') \<Rightarrow> (r # rs, self'', w'')))"

definition counting ::
  "(string \<Rightarrow> 'w \<Rightarrow> (py_exception + 'a) \<times> 'w)
     \<Rightarrow> string \<Rightarrow> 'w \<times> string list \<Rightarrow> (py_exception + 'a) \<times> ('w \<times> string list)" where
  "counting lm k = (\<lambda>(w, log). case lm k w of (r, w') \<Rightarrow> (r, (w', log @ [k])))"

definition load_upper :: "string \<Rightarrow> nat \<Rightarrow> (py_exception + string) \<times> nat" where
  "load_upper k n = (Inr (k @ ''!''), Suc n)"

section \<open>MultifileCollectionParser\<close>





text \<open>What \<open>_parse_multifile\<close> assembles: the children's results, parsed or lazy, behind a facade.\<close>

datatype ('a, 'w) children_results =
  Parsed "(string \<times> 'a) list" | Lazy "('a, 'w) lazy_dictionary"

datatype ('a, 'w) collection =
    KeySortedListFacadeForDict "('a, 'w) children_results"
  | KeySortedTupleFacadeForDict "('a, 'w) children_results"
  | SetFacadeForDict "('a, 'w) children_results"
  | PlainDict "('a, 'w) children_results"

text \<open>The loop of lines 428-429: an exception of a child plan leaves it.\<close>

fun execute_children ::
  "('pl \<Rightarrow> 'w \<Rightarrow> (py_exception + 'a) \<times> 'w) \<Rightarrow> (string \<times> 'pl) list \<Rightarrow> (string \<times> 'a) list \<Rightarrow> 'w
     \<Rightarrow> (py_exception + (string \<times> 'a) list) \<times> 'w" where
  "execute_children plan_execute [] results w = (Inr results, w)"
| "execute_children plan_execute ((child_name, child_plan) # rest) results w =
     (case plan_execute child_plan w of
        (Inl e, w') \<Rightarrow> (Inl e, w')
      | (Inr v, w') \<Rightarrow>
          execute_children plan_execute rest (AList.update child_name v results) w')"

text \<open>
  \<open>_parse_multifile\<close>, lines 387-447. \<open>issubclass\<close> is Python's, on the class hierarchy of
  the running program; the plans' \<open>execute\<close> is a collaborator.
\<close>

definition parse_multifile ::
  "(pytype \<Rightarrow> string \<Rightarrow> bool) \<Rightarrow> ('pl \<Rightarrow> 'w \<Rightarrow> (py_exception + 'a) \<times> 'w) \<Rightarrow>
   pytype \<Rightarrow> (string \<times> 'pl) list \<Rightarrow> bool \<Rightarrow> bool \<Rightarrow> 'w
     \<Rightarrow> (py_exception + ('a, 'w) collection) \<times> 'w" where
  "parse_multifile issubclass plan_execute desired_type parsing_plan_for_children
       lazy_parsing background_parsing w =
     (if lazy_parsing \<and> background_parsing then (Inl (ValueError LazyAndBackground), w)
      else
        case (if lazy_parsing
              then (Inr (Lazy (LazyDictionary_init (map fst parsing_plan_for_children)
                         (\<lambda>x w. case map_of parsing_plan_for_children x of
                                  None \<Rightarrow> (Inl (KeyError x), w)
                                | Some plan \<Rightarrow> plan_execute plan w))), w)
              else if background_parsing
              then (Inl (ValueError BackgroundNotSupported), w)
              else (case execute_children plan_execute
                           (sort_key fst parsing_plan_for_children) [] w of
                      (Inl e, w') \<Rightarrow> (Inl e, w')
                    | (Inr res, w') \<Rightarrow> (Inr (Parsed res), w'))) of
          (Inl e, w') \<Rightarrow> (Inl e, w')
        | (Inr results, w') \<Rightarrow>
            if issubclass desired_type ''list''
              then (Inr (KeySortedListFacadeForDict results), w')
            else if issubclass desired_type ''tuple'' \<or> issubclass desired_type ''Tuple''
              then (Inr (KeySortedTupleFacadeForDict results), w')
            else if issubclass desired_type ''set''
              then (Inr (SetFacadeForDict results), w')
            else if issubclass desired_type ''dict''
              then (Inr (PlainDict results), w')
            else (Inl (TypeError ''desired type is not supported''), w'))"






section \<open>CascadingParsingPlan\<close>



text \<open>
  What a call did to its collaborators, in order: candidate \<open>i\<close> was asked for a plan and
  raised, or answered and became the active one; the active plan of candidate \<open>i\<close> was
  executed and raised, or returned. A failure carries the key it was recorded under.
\<close>

datatype event =
    CreateFailed int parser py_exception
  | Activated int
  | ExecFailed int parser py_exception
  | ExecReturned int














text \<open>
  Reading the events: the candidate an event is about, whether it asks a candidate for a
  plan, whether it is a failure, and the failures as the dictionaries record them.
\<close>

fun ev_idx :: "event \<Rightarrow> int" where
  "ev_idx (CreateFailed i p e) = i"
| "ev_idx (Activated i) = i"
| "ev_idx (ExecFailed i p e) = i"
| "ev_idx (ExecReturned i) = i"

fun is_attempt :: "event \<Rightarrow> bool" where
  "is_attempt (CreateFailed i p e) = True"
| "is_attempt (Activated i) = True"
| "is_attempt (ExecFailed i p e) = False"
| "is_attempt (ExecReturned i) = False"





text \<open>
  What may follow what: after a failure, of a construction or of an execution, the
  candidate at the next index is asked for a plan; after an activation the new plan is
  executed; nothing follows a successful execution.
\<close>

definition next_event :: "event \<Rightarrow> event \<Rightarrow> bool" where
  "next_event ev ev' =
     (case ev of
        CreateFailed i p x \<Rightarrow> is_attempt ev' \<and> ev_idx ev' = i + 1
      | ExecFailed i p x \<Rightarrow> is_attempt ev' \<and> ev_idx ev' = i + 1
      | Activated i \<Rightarrow> \<not> is_attempt ev' \<and> ev_idx ev' = i
      | ExecReturned i \<Rightarrow> False)"







section \<open>Properties of CascadingParser\<close>

lemma configured_add_parser_to_cascade:
  "configured (snd (add_parser_to_cascade self_ss self_sm self p)) = configured self"
  by (simp add: add_parser_to_cascade_def configure_cascade_def Let_def)

lemma add_parser_to_cascade_overwrites:
  assumes "\<not> configured self"
    and "add_parser_to_cascade self_ss self_sm self p = (Inr u, self')"
  shows "cascade_supported_types self' = supported_types p
       \<and> cascade_supported_exts self' = supported_exts p
       \<and> parsers_list self' = parsers_list self @ [p]"
  using assms
  by (auto simp: add_parser_to_cascade_def configure_cascade_def Let_def split: if_splits)

text \<open>
  C3. The descriptor of the cascade should be that of its first candidate and stay so.
  The flag \<open>configured\<close> is initialised to false and never set, so every call of
  \<open>add_parser_to_cascade\<close> runs the configuring block again: after adding \<open>parser_A\<close>
  (any type, \<open>.txt\<close>) and then \<open>parser_B\<close> (\<open>int\<close>, \<open>.csv\<close>), whatever the inherited
  support methods answer, both calls succeed and the cascade advertises the types and
  extensions of \<open>parser_B\<close>, not those of \<open>parser_A\<close>.
\<close>

theorem cascade_descriptor_follows_last_added:
  "\<forall>self_ss self_sm. \<exists>c.
     CascadingParser_init self_ss self_sm (Some [parser_A, parser_B]) = Inr c
     \<and> parsers_list c = [parser_A, parser_B]
     \<and> cascade_supported_types c = supported_types parser_B
     \<and> cascade_supported_exts c = supported_exts parser_B
     \<and> cascade_supported_types c \<noteq> supported_types parser_A
     \<and> cascade_supported_exts c \<noteq> supported_exts parser_A"
  by (simp add: CascadingParser_init_def new_cascading_parser_def add_parser_to_cascade_def
      configure_cascade_def parser_A_def parser_B_def Let_def)

text \<open>
  C4. A cascade configured for any type should reject a candidate with a finite type set.
  On the cascade holding \<open>parser_A\<close> (configured by it for any type), adding \<open>parser_B\<close>,
  which supports only \<open>int\<close>, succeeds: the configuring block has replaced the cascade's
  types by the candidate's own before the test of line 184 reads them.
\<close>

theorem any_type_cascade_accepts_finite_candidate:
  "\<forall>self_ss self_sm. \<exists>c c'.
     CascadingParser_init self_ss self_sm (Some [parser_A]) = Inr c
     \<and> cascade_supported_types c = {Any}
     \<and> Any \<notin> supported_types parser_B
     \<and> add_parser_to_cascade self_ss self_sm c parser_B = (Inr (), c')
     \<and> parsers_list c' = [parser_A, parser_B]"
  by (simp add: CascadingParser_init_def new_cascading_parser_def add_parser_to_cascade_def
      configure_cascade_def parser_A_def parser_B_def Let_def)

text \<open>
  C5. A cascade configured for single-file support should refuse a candidate that does
  not support single files and keep its candidate list. The cascade built from
  \<open>parser_S\<close> supports single files, and \<open>parser_M\<close> does not; yet adding \<open>parser_M\<close>
  succeeds and the list grows from one candidate to two. The flag \<open>configured\<close> is never
  set, so the configuring block has replaced the cascade's extensions and types by those
  of \<open>parser_M\<close> before line 171 asks the cascade whether it supports single files, and
  the cascade answers for the candidate. More generally, whatever the inherited methods
  compute from the cascade, the extensions and types a cascade held before the call have
  no influence on what the call does, and the \<open>ValueError\<close> of line 173 is raised exactly
  when the cascade, once it holds the candidate's own extensions and types, answers that
  it supports single files while the candidate answers that it does not.
\<close>

theorem singlefile_cascade_accepts_multifile_only_candidate:
  "(\<forall>self_ss self_sm self p E T.
      add_parser_to_cascade self_ss self_sm
          (self\<lparr>configured := False, cascade_supported_exts := E,
                 cascade_supported_types := T\<rparr>) p
        = add_parser_to_cascade self_ss self_sm (self\<lparr>configured := False\<rparr>) p)
   \<and> (\<forall>self_ss self_sm self p.
        (fst (add_parser_to_cascade self_ss self_sm (self\<lparr>configured := False\<rparr>) p)
           = Inl (ValueError CascadeSinglefileSupport))
        = (self_ss (self\<lparr>configured := False, cascade_supported_exts := supported_exts p,
                          cascade_supported_types := supported_types p\<rparr>)
           \<and> \<not> supports_singlefile p))
   \<and> (\<exists>c c'.
        CascadingParser_init exts_support_singlefile exts_support_multifile (Some [parser_S])
          = Inr c
        \<and> parsers_list c = [parser_S]
        \<and> cascade_supported_exts c = {''.txt''}
        \<and> exts_support_singlefile c
        \<and> \<not> supports_singlefile parser_M
        \<and> add_parser_to_cascade exts_support_singlefile exts_support_multifile c parser_M
            = (Inr (), c')
        \<and> parsers_list c' = [parser_S, parser_M]
        \<and> length (parsers_list c') = Suc (length (parsers_list c)))"
  by (simp add: CascadingParser_init_def new_cascading_parser_def add_parser_to_cascade_def
      configure_cascade_def parser_S_def parser_M_def exts_support_singlefile_def
      exts_support_multifile_def MULTIFILE_EXT_def Let_def)

section \<open>Properties of ParsingChain\<close>

text \<open>
  C6. A base parser with two or more supported types and no chosen destination type is
  refused with a \<open>ValueError\<close> (the one of line 381 when the wildcard is not among the
  types, the one of line 375 when it is). With a chosen type that the converter accepts
  as its source under the given strictness, and no wildcard among the base parser's
  types, construction succeeds; the chain supports exactly the converter's destination
  type and inherits the base parser's extensions. A base parser supporting the wildcard
  is refused whatever else is given.
\<close>

theorem ParsingChain_init_validation:
  "(2 \<le> card (supported_types bp) \<longrightarrow>
      (\<exists>r. ParsingChain_init able bp conv s None = Inl (ValueError r))
      \<and> (Any \<notin> supported_types bp \<longrightarrow>
            ParsingChain_init able bp conv s None = Inl (ValueError ChainSeveralTypes)))
   \<and> (Any \<notin> supported_types bp \<and> able conv s t None \<longrightarrow>
        ParsingChain_init able bp conv s (Some t)
          = Inr \<lparr>base_parser = bp, chain_converter = conv,
                 chain_supported_types = {to_type conv},
                 chain_supported_exts = supported_exts bp, strict = s\<rparr>)
   \<and> (Any \<in> supported_types bp \<longrightarrow>
        ParsingChain_init able bp conv s chosen = Inl (ValueError ChainAnyTypeBase))"
  by (auto simp: ParsingChain_init_def)

theorem ParsingChain_init_validation_witness:
  "2 \<le> card (supported_types parser_D)
   \<and> Any \<notin> supported_types parser_D
   \<and> accepts_declared_source conv_str_float True (Cls ''str'') None
   \<and> ParsingChain_init accepts_declared_source parser_D conv_str_float True None
        = Inl (ValueError ChainSeveralTypes)
   \<and> ParsingChain_init accepts_declared_source parser_D conv_str_float True (Some (Cls ''str''))
        = Inr chain_D
   \<and> Any \<in> supported_types parser_A
   \<and> ParsingChain_init accepts_declared_source parser_A conv_str_float True (Some (Cls ''str''))
        = Inl (ValueError ChainAnyTypeBase)"
proof -
  have c: "2 \<le> card (supported_types parser_D)" and n: "Any \<notin> supported_types parser_D"
    by (simp_all add: parser_D_def)
  have a: "accepts_declared_source conv_str_float True (Cls ''str'') None"
    by (simp add: accepts_declared_source_def conv_str_float_def)
  have m: "Any \<in> supported_types parser_A"
    by (simp add: parser_A_def)
  note d = ParsingChain_init_validation
             [of parser_D accepts_declared_source conv_str_float True "Cls ''str''" None]
  note e = ParsingChain_init_validation
             [of parser_A accepts_declared_source conv_str_float True "Cls ''str''"
                 "Some (Cls ''str'')"]
  have "chain_D = \<lparr>base_parser = parser_D, chain_converter = conv_str_float,
                   chain_supported_types = {to_type conv_str_float},
                   chain_supported_exts = supported_exts parser_D, strict = True\<rparr>"
    by (simp add: chain_D_def conv_str_float_def parser_D_def)
  with c n a m d e show ?thesis by simp
qed

text \<open>
  C7. The chain asks its base parser for the converter's declared source type. When the
  base parser raises, the chain raises the same exception and the converter is not
  called (the world is the one the base parser left). When the base parser returns a
  value, the chain's outcome is the converter's outcome on that value for the desired
  type, an exception of the converter included.
\<close>

theorem ParsingChain_parse_singlefile_stages:
  "(parse_sf (base_parser self) (from_type (chain_converter self)) file_path encoding w
      = (Inl e, w') \<longrightarrow>
    ParsingChain_parse_singlefile parse_sf convert self desired_type file_path encoding w
      = (Inl e, w'))
   \<and> (parse_sf (base_parser self) (from_type (chain_converter self)) file_path encoding w
      = (Inr first, w') \<longrightarrow>
    ParsingChain_parse_singlefile parse_sf convert self desired_type file_path encoding w
      = convert (chain_converter self) desired_type first w')"
  by (simp add: ParsingChain_parse_singlefile_def)

theorem ParsingChain_parse_singlefile_stages_witness:
  "logging_parse (base_parser chain_D) (from_type (chain_converter chain_D)) ''missing'' ''utf-8'' []
     = (Inl (Raised ''no such file''), [ParseCall ''D'' (Cls ''str'')])
   \<and> ParsingChain_parse_singlefile logging_parse logging_convert chain_D (Cls ''float'')
        ''missing'' ''utf-8'' []
     = (Inl (Raised ''no such file''), [ParseCall ''D'' (Cls ''str'')])
   \<and> logging_parse (base_parser chain_D) (from_type (chain_converter chain_D)) ''bad'' ''utf-8'' []
     = (Inr ''bad'', [ParseCall ''D'' (Cls ''str'')])
   \<and> ParsingChain_parse_singlefile logging_parse logging_convert chain_D (Cls ''float'')
        ''bad'' ''utf-8'' []
     = (Inl (Raised ''cannot convert''),
        [ParseCall ''D'' (Cls ''str''), ConvertCall ''str2float'' (Cls ''float'')])"
proof -
  have p1: "logging_parse (base_parser chain_D) (from_type (chain_converter chain_D))
              ''missing'' ''utf-8'' []
            = (Inl (Raised ''no such file''), [ParseCall ''D'' (Cls ''str'')])"
    by (simp add: logging_parse_def chain_D_def parser_D_def conv_str_float_def)
  have p2: "logging_parse (base_parser chain_D) (from_type (chain_converter chain_D))
              ''bad'' ''utf-8'' []
            = (Inr ''bad'', [ParseCall ''D'' (Cls ''str'')])"
    by (simp add: logging_parse_def chain_D_def parser_D_def conv_str_float_def)
  have c2: "logging_convert (chain_converter chain_D) (Cls ''float'') ''bad''
              [ParseCall ''D'' (Cls ''str'')]
            = (Inl (Raised ''cannot convert''),
               [ParseCall ''D'' (Cls ''str''), ConvertCall ''str2float'' (Cls ''float'')])"
    by (simp add: logging_convert_def chain_D_def conv_str_float_def)
  note a = ParsingChain_parse_singlefile_stages
             [of logging_parse chain_D "''missing''" "''utf-8''" "[]" "Raised ''no such file''"
                 "[ParseCall ''D'' (Cls ''str'')]" logging_convert "Cls ''float''" "''bad''"]
  note b = ParsingChain_parse_singlefile_stages
             [of logging_parse chain_D "''bad''" "''utf-8''" "[]" "Raised ''no such file''"
                 "[ParseCall ''D'' (Cls ''str'')]" logging_convert "Cls ''float''" "''bad''"]
  from a p1 have r1: "ParsingChain_parse_singlefile logging_parse logging_convert chain_D
        (Cls ''float'') ''missing'' ''utf-8'' []
     = (Inl (Raised ''no such file''), [ParseCall ''D'' (Cls ''str'')])"
    by blast
  from b p2 c2 have r2: "ParsingChain_parse_singlefile logging_parse logging_convert chain_D
        (Cls ''float'') ''bad'' ''utf-8'' []
     = (Inl (Raised ''cannot convert''),
        [ParseCall ''D'' (Cls ''str''), ConvertCall ''str2float'' (Cls ''float'')])"
    by simp
  from p1 p2 r1 r2 show ?thesis by blast
qed

section \<open>Properties of the collection support\<close>

text \<open>
  C8. With \<open>lazy_parsing\<close> and \<open>background_parsing\<close> both true the call raises the
  \<open>ValueError\<close> of line 408, and with \<open>background_parsing\<close> alone the \<open>ValueError\<close> of
  line 419 ("not yet supported"); in both cases the world is the one the call started
  in, so no child plan has been executed.
\<close>

theorem parse_multifile_rejects_background:
  "parse_multifile issubclass plan_execute desired_type plans True True w
     = (Inl (ValueError LazyAndBackground), w)
   \<and> parse_multifile issubclass plan_execute desired_type plans False True w
     = (Inl (ValueError BackgroundNotSupported), w)"
  by (simp add: parse_multifile_def)









lemma getitem_keeps_keys:
  "LazyDictionary_getitem d k w = (r, d', w') \<Longrightarrow>
     lazyloadable_keys d' = lazyloadable_keys d \<and> loading_method d' = loading_method d"
  by (auto simp: LazyDictionary_getitem_def split: option.splits if_splits prod.splits sum.splits)

lemma getitem_cached:
  assumes "LazyDictionary_getitem d k w = (Inr v, d', w')"
  shows "LazyDictionary_getitem d' k w2 = (Inr v, d', w2)"
  using assms
  by (auto simp: LazyDictionary_getitem_def update_conv'
      split: option.splits if_splits prod.splits sum.splits)

lemma getitem_log:
  assumes "LazyDictionary_getitem d k (w, log) = (Inr v, d', (w', log'))"
    and "loading_method d = counting lm"
    and "set log \<subseteq> fst ` set (inner_dict d)" and "distinct log"
    and "set log \<subseteq> set (lazyloadable_keys d)"
  shows "set log' \<subseteq> fst ` set (inner_dict d') \<and> distinct log'
       \<and> loading_method d' = counting lm \<and> set log' \<subseteq> set (lazyloadable_keys d')
       \<and> lazyloadable_keys d' = lazyloadable_keys d"
  using assms
  by (auto simp: LazyDictionary_getitem_def counting_def dom_update map_of_eq_None_iff
      split: option.splits if_splits prod.splits sum.splits)

lemma lookups_log:
  assumes "lookups d ks (w, log) = (rs, d', (w', log'))"
    and "\<forall>r\<in>set rs. \<exists>v. r = Inr v"
    and "loading_method d = counting lm"
    and "set log \<subseteq> fst ` set (inner_dict d)" and "distinct log"
    and "set log \<subseteq> set (lazyloadable_keys d)"
  shows "distinct log' \<and> set log' \<subseteq> set (lazyloadable_keys d)
       \<and> lazyloadable_keys d' = lazyloadable_keys d"
  using assms
proof (induction ks arbitrary: d w log rs)
  case Nil
  then show ?case by simp
next
  case (Cons k ks)
  obtain r d1 w1 l1 where g: "LazyDictionary_getitem d k (w, log) = (r, d1, (w1, l1))"
    by (metis prod_cases3 surj_pair)
  obtain rs2 where l: "lookups d1 ks (w1, l1) = (rs2, d', (w', log'))" and rs: "rs = r # rs2"
    using Cons.prems(1) g by (auto split: prod.splits)
  from Cons.prems(2) rs obtain v where r: "r = Inr v" by auto
  from getitem_log[OF g[unfolded r] Cons.prems(3,4,5,6)]
  have inv: "set l1 \<subseteq> fst ` set (inner_dict d1)" "distinct l1" "loading_method d1 = counting lm"
    "set l1 \<subseteq> set (lazyloadable_keys d1)" "lazyloadable_keys d1 = lazyloadable_keys d"
    by auto
  from Cons.prems(2) rs have "\<forall>r\<in>set rs2. \<exists>v. r = Inr v" by simp
  from Cons.IH[OF l this inv(3) inv(1) inv(2) inv(4)] inv(5) show ?case by simp
qed

lemma getitem_first_lookup:
  assumes "name \<in> set (lazyloadable_keys d)" and "map_of (inner_dict d) name = None"
  shows "loading_method d name w = (Inr val, w') \<Longrightarrow>
           LazyDictionary_getitem d name w
             = (Inr val, d\<lparr>inner_dict := AList.update name val (inner_dict d)\<rparr>, w')"
    and "loading_method d name w = (Inl e, w') \<Longrightarrow>
           LazyDictionary_getitem d name w = (Inl e, d, w')"
  using assms by (simp_all add: LazyDictionary_getitem_def)

lemma getitem_keeps_cached:
  assumes "LazyDictionary_getitem d k2 w = (r, d', w')"
    and "map_of (inner_dict d) k = Some v"
  shows "map_of (inner_dict d') k = Some v"
  using assms
  by (auto simp: LazyDictionary_getitem_def update_conv'
      split: option.splits if_splits prod.splits sum.splits)

lemma lookups_keep_cached:
  assumes "lookups d ks w = (rs, d', w')"
    and "map_of (inner_dict d) k = Some v"
  shows "map_of (inner_dict d') k = Some v"
  using assms
proof (induction ks arbitrary: d w rs)
  case Nil
  then show ?case by simp
next
  case (Cons k2 ks)
  obtain r d1 w1 where g: "LazyDictionary_getitem d k2 w = (r, d1, w1)"
    by (metis prod_cases3)
  obtain rs2 where l: "lookups d1 ks w1 = (rs2, d', w')"
    using Cons.prems(1) g by (auto split: prod.splits)
  from getitem_keeps_cached[OF g Cons.prems(2)] have "map_of (inner_dict d1) k = Some v" .
  from Cons.IH[OF l this] show ?case .
qed

lemma getitem_caches:
  assumes "LazyDictionary_getitem d k w = (Inr v, d', w')"
  shows "map_of (inner_dict d') k = Some v"
  using assms
  by (auto simp: LazyDictionary_getitem_def update_conv'
      split: option.splits if_splits prod.splits sum.splits)

lemma getitem_of_cached:
  "map_of (inner_dict d) k = Some v \<Longrightarrow> LazyDictionary_getitem d k w = (Inr v, d, w)"
  by (simp add: LazyDictionary_getitem_def)

text \<open>
  C10. Across a sequence of lookups that all succeed on a fresh dictionary, the log of
  the keys the loading method was called for has no key twice and holds only lazy-loadable
  keys. A lookup that returned a value is repeated by any later lookup of the same key:
  same value, same dictionary, and the world untouched, so the loading method is not
  called again. \<open>keys()\<close>, \<open>len()\<close>, iteration and \<open>in\<close> answer from the list of lazy-loadable
  keys, on the fresh dictionary (nothing loaded) as after the lookups.
  The first lookup of a lazy-loadable key that is not cached calls the loading method
  on the world as it is: when the method returns a value, the lookup returns that value,
  stores it under the key and leaves the world as the method left it; when the method
  raises, the lookup raises the same and caches nothing. A value a lookup returned is
  still the answer after any further lookups, of any keys and whatever they did: the
  lookup of the same key returns it and touches neither the dictionary nor the world.
\<close>

theorem LazyDictionary_loads_each_key_once:
  "(lookups (LazyDictionary_init keys (counting lm)) names (w, []) = (rs, d, (w', log))
      \<and> (\<forall>r\<in>set rs. \<exists>v. r = Inr v) \<longrightarrow>
        distinct log \<and> set log \<subseteq> set keys
        \<and> LazyDictionary_keys d = set keys \<and> LazyDictionary_len d = length keys
        \<and> LazyDictionary_iter d = keys)
   \<and> (LazyDictionary_getitem d1 k w1 = (Inr v, d2, w2) \<longrightarrow>
        (\<forall>w3. LazyDictionary_getitem d2 k w3 = (Inr v, d2, w3)))
   \<and> inner_dict (LazyDictionary_init keys lm2) = []
   \<and> LazyDictionary_keys (LazyDictionary_init keys lm2) = set keys
   \<and> LazyDictionary_len (LazyDictionary_init keys lm2) = length keys
   \<and> LazyDictionary_iter (LazyDictionary_init keys lm2) = keys
   \<and> (\<forall>item. LazyDictionary_contains (LazyDictionary_init keys lm2) item = (item \<in> set keys))
   \<and> (name \<in> set (lazyloadable_keys d0) \<and> map_of (inner_dict d0) name = None
        \<and> loading_method d0 name w0 = (Inr val, w0') \<longrightarrow>
        LazyDictionary_getitem d0 name w0
          = (Inr val, d0\<lparr>inner_dict := AList.update name val (inner_dict d0)\<rparr>, w0')
        \<and> map_of (AList.update name val (inner_dict d0)) name = Some val)
   \<and> (name \<in> set (lazyloadable_keys d0) \<and> map_of (inner_dict d0) name = None
        \<and> loading_method d0 name w0 = (Inl e, w0') \<longrightarrow>
        LazyDictionary_getitem d0 name w0 = (Inl e, d0, w0'))
   \<and> (LazyDictionary_getitem d1 k w1 = (Inr v, d2, w2) \<and> lookups d2 ks wa = (rs2, d3, wb) \<longrightarrow>
        (\<forall>w3. LazyDictionary_getitem d3 k w3 = (Inr v, d3, w3)))"
proof (intro conjI impI allI)
  assume a: "lookups (LazyDictionary_init keys (counting lm)) names (w, []) = (rs, d, (w', log))
      \<and> (\<forall>r\<in>set rs. \<exists>v. r = Inr v)"
  have "distinct log \<and> set log \<subseteq> set (lazyloadable_keys (LazyDictionary_init keys (counting lm)))
       \<and> lazyloadable_keys d = lazyloadable_keys (LazyDictionary_init keys (counting lm))"
    using lookups_log[of "LazyDictionary_init keys (counting lm)" names w "[]" rs d w' log lm] a
    by (simp add: LazyDictionary_init_def)
  then show "distinct log" "set log \<subseteq> set keys" "LazyDictionary_keys d = set keys"
    "LazyDictionary_len d = length keys" "LazyDictionary_iter d = keys"
    by (simp_all add: LazyDictionary_init_def LazyDictionary_keys_def LazyDictionary_len_def
        LazyDictionary_iter_def)
next
  fix w3
  assume "LazyDictionary_getitem d1 k w1 = (Inr v, d2, w2)"
  then show "LazyDictionary_getitem d2 k w3 = (Inr v, d2, w3)"
    by (rule getitem_cached)
next
  assume a: "name \<in> set (lazyloadable_keys d0) \<and> map_of (inner_dict d0) name = None
        \<and> loading_method d0 name w0 = (Inr val, w0')"
  then show "LazyDictionary_getitem d0 name w0
          = (Inr val, d0\<lparr>inner_dict := AList.update name val (inner_dict d0)\<rparr>, w0')"
    by (simp add: getitem_first_lookup(1))
  show "map_of (AList.update name val (inner_dict d0)) name = Some val"
    by (simp add: update_conv')
next
  assume "name \<in> set (lazyloadable_keys d0) \<and> map_of (inner_dict d0) name = None
        \<and> loading_method d0 name w0 = (Inl e, w0')"
  then show "LazyDictionary_getitem d0 name w0 = (Inl e, d0, w0')"
    by (simp add: getitem_first_lookup(2))
next
  fix w3
  assume a: "LazyDictionary_getitem d1 k w1 = (Inr v, d2, w2) \<and> lookups d2 ks wa = (rs2, d3, wb)"
  then have "map_of (inner_dict d2) k = Some v"
    using getitem_caches[of d1 k w1 v d2 w2] by simp
  with a have "map_of (inner_dict d3) k = Some v"
    using lookups_keep_cached[of d2 ks wa rs2 d3 wb k v] by simp
  then show "LazyDictionary_getitem d3 k w3 = (Inr v, d3, w3)"
    by (rule getitem_of_cached)
qed (simp_all add: LazyDictionary_init_def LazyDictionary_keys_def LazyDictionary_len_def
        LazyDictionary_iter_def LazyDictionary_contains_def)

theorem LazyDictionary_loads_each_key_once_witness:
  "lookups (LazyDictionary_init [''a'', ''b''] (counting load_upper)) [''a'', ''b'', ''a''] (0, [])
     = ([Inr ''a!'', Inr ''b!'', Inr ''a!''],
        \<lparr>inner_dict = [(''a'', ''a!''), (''b'', ''b!'')], lazyloadable_keys = [''a'', ''b''],
         loading_method = counting load_upper\<rparr>,
        (2, [''a'', ''b'']))
   \<and> distinct [''a'', ''b'']
   \<and> LazyDictionary_getitem (LazyDictionary_init [''a'', ''b''] (counting load_upper)) ''a'' (0, [])
       = (Inr ''a!'',
          \<lparr>inner_dict = [(''a'', ''a!'')], lazyloadable_keys = [''a'', ''b''],
           loading_method = counting load_upper\<rparr>, (1, [''a'']))
   \<and> LazyDictionary_getitem
        \<lparr>inner_dict = [(''a'', ''a!'')], lazyloadable_keys = [''a'', ''b''],
         loading_method = counting load_upper\<rparr> ''a'' (1, [''a''])
       = (Inr ''a!'',
          \<lparr>inner_dict = [(''a'', ''a!'')], lazyloadable_keys = [''a'', ''b''],
           loading_method = counting load_upper\<rparr>, (1, [''a'']))
   \<and> lookups \<lparr>inner_dict = [(''a'', ''a!'')], lazyloadable_keys = [''a'', ''b''],
         loading_method = counting load_upper\<rparr> [''b'', ''c''] (1, [''a''])
       = ([Inr ''b!'', Inl (KeyError ''c'')],
          \<lparr>inner_dict = [(''a'', ''a!''), (''b'', ''b!'')], lazyloadable_keys = [''a'', ''b''],
           loading_method = counting load_upper\<rparr>, (2, [''a'', ''b'']))
   \<and> LazyDictionary_getitem
        \<lparr>inner_dict = [(''a'', ''a!''), (''b'', ''b!'')], lazyloadable_keys = [''a'', ''b''],
         loading_method = counting load_upper\<rparr> ''a'' (2, [''a'', ''b''])
       = (Inr ''a!'',
          \<lparr>inner_dict = [(''a'', ''a!''), (''b'', ''b!'')], lazyloadable_keys = [''a'', ''b''],
           loading_method = counting load_upper\<rparr>, (2, [''a'', ''b'']))
   \<and> LazyDictionary_getitem
        (LazyDictionary_init [''a''] (\<lambda>k w. (Inl (Raised ''unreadable''), Suc w))) ''a'' (0::nat)
       = (Inl (Raised ''unreadable'') :: py_exception + string,
          LazyDictionary_init [''a''] (\<lambda>k w. (Inl (Raised ''unreadable''), Suc w)), 1)"
proof -
  let ?d0 = "LazyDictionary_init [''a'', ''b''] (counting load_upper)"
  let ?d1 = "\<lparr>inner_dict = [(''a'', ''a!'')], lazyloadable_keys = [''a'', ''b''],
           loading_method = counting load_upper\<rparr>"
  let ?d2 = "\<lparr>inner_dict = [(''a'', ''a!''), (''b'', ''b!'')], lazyloadable_keys = [''a'', ''b''],
         loading_method = counting load_upper\<rparr>"
  let ?bad = "LazyDictionary_init [''a'']
                (\<lambda>k w. (Inl (Raised ''unreadable'') :: py_exception + string, Suc w))"
  have l: "lookups ?d0 [''a'', ''b'', ''a''] (0, [])
     = ([Inr ''a!'', Inr ''b!'', Inr ''a!''], ?d2, (2, [''a'', ''b'']))"
    by (simp add: LazyDictionary_init_def LazyDictionary_getitem_def counting_def load_upper_def)
  have s: "\<forall>r\<in>set [Inr ''a!'', Inr ''b!'', Inr ''a!'' :: py_exception + string]. \<exists>v. r = Inr v"
    by simp
  have h0: "''a'' \<in> set (lazyloadable_keys ?d0)" "map_of (inner_dict ?d0) ''a'' = None"
    "loading_method ?d0 ''a'' (0, []) = (Inr ''a!'', (1, [''a'']))"
    "?d0\<lparr>inner_dict := AList.update ''a'' ''a!'' (inner_dict ?d0)\<rparr> = ?d1"
    by (simp_all add: LazyDictionary_init_def counting_def load_upper_def)
  have hb: "''a'' \<in> set (lazyloadable_keys ?bad)" "map_of (inner_dict ?bad) ''a'' = None"
    "loading_method ?bad ''a'' 0 = (Inl (Raised ''unreadable''), 1)"
    by (simp_all add: LazyDictionary_init_def)
  have l2: "lookups ?d1 [''b'', ''c''] (1, [''a''])
     = ([Inr ''b!'', Inl (KeyError ''c'')], ?d2, (2, [''a'', ''b'']))"
    by (simp add: LazyDictionary_getitem_def counting_def load_upper_def)
  note t = LazyDictionary_loads_each_key_once
      [where keys = "[''a'', ''b'']" and lm = load_upper and names = "[''a'', ''b'', ''a'']"
         and w = 0 and rs = "[Inr ''a!'', Inr ''b!'', Inr ''a!'']" and d = ?d2 and w' = 2
         and log = "[''a'', ''b'']"
         and ?d0.0 = ?d0 and name = "''a''" and ?w0.0 = "(0, [])" and val = "''a!''"
         and w0' = "(1, [''a''])"
         and ?d1.0 = ?d0 and k = "''a''" and ?w1.0 = "(0, [])" and v = "''a!''" and ?d2.0 = ?d1
         and ?w2.0 = "(1, [''a''])" and ks = "[''b'', ''c'']" and wa = "(1, [''a''])"
         and ?rs2.0 = "[Inr ''b!'', Inl (KeyError ''c'')]" and ?d3.0 = ?d2
         and wb = "(2, [''a'', ''b''])"]
  note tb = LazyDictionary_loads_each_key_once
      [where ?d0.0 = ?bad and name = "''a''" and ?w0.0 = "0::nat"
         and e = "Raised ''unreadable''" and w0' = "1::nat",
       THEN conjunct2, THEN conjunct2, THEN conjunct2, THEN conjunct2, THEN conjunct2,
       THEN conjunct2, THEN conjunct2, THEN conjunct2, THEN conjunct1]
  from t l s have d: "distinct [''a'', ''b'']" by blast
  from t h0(1,2,3) have "LazyDictionary_getitem ?d0 ''a'' (0, [])
      = (Inr ''a!'', ?d0\<lparr>inner_dict := AList.update ''a'' ''a!'' (inner_dict ?d0)\<rparr>, (1, [''a'']))"
    by blast
  then have g: "LazyDictionary_getitem ?d0 ''a'' (0, []) = (Inr ''a!'', ?d1, (1, [''a'']))"
    by (simp only: h0(4))
  from t g have c: "LazyDictionary_getitem ?d1 ''a'' (1, [''a'']) = (Inr ''a!'', ?d1, (1, [''a'']))"
    by blast
  from t g l2 have c2: "LazyDictionary_getitem ?d2 ''a'' (2, [''a'', ''b''])
      = (Inr ''a!'', ?d2, (2, [''a'', ''b'']))"
    by blast
  from tb hb have b: "LazyDictionary_getitem ?bad ''a'' 0 = (Inl (Raised ''unreadable''), ?bad, 1)"
    by blast
  from l d g c l2 c2 b show ?thesis by blast
qed

section \<open>Properties of CascadingParsingPlan\<close>

lemma next_event_simps [simp]:
  "next_event (CreateFailed i p x) ev = (is_attempt ev \<and> ev_idx ev = i + 1)"
  "next_event (ExecFailed i p x) ev = (is_attempt ev \<and> ev_idx ev = i + 1)"
  "next_event (Activated i) ev = (\<not> is_attempt ev \<and> ev_idx ev = i)"
  "next_event (ExecReturned i) ev = False"
  by (simp_all add: next_event_def)

































































end
